theory Spec2Isabelle
  imports Main "HOL-Library.Word"
begin

section \<open>Python string primitives used by \<^verbatim>\<open>main.py\<close>\<close>

text \<open>
  A Python \<^verbatim>\<open>str\<close> is modelled as a \<^typ>\<open>string\<close>, a character being a code point
  from 0 to 255. On these the character classes are the ones of Python: \<^verbatim>\<open>\d\<close> matches
  \<^verbatim>\<open>0\<close>..\<^verbatim>\<open>9\<close>; \<^verbatim>\<open>str.isspace\<close> holds for tab, line feed, vertical tab, form feed,
  carriage return, the four separators \<^verbatim>\<open>0x1c\<close>..\<^verbatim>\<open>0x1f\<close>, the space, the next-line
  character \<^verbatim>\<open>0x85\<close> and the no-break space \<^verbatim>\<open>0xa0\<close>; and \<^verbatim>\<open>str.lower\<close> maps
  \<^verbatim>\<open>A\<close>..\<^verbatim>\<open>Z\<close> to \<^verbatim>\<open>a\<close>..\<^verbatim>\<open>z\<close> and the capital letters \<^verbatim>\<open>0xc0\<close>..\<^verbatim>\<open>0xde\<close>
  (without the multiplication sign \<^verbatim>\<open>0xd7\<close>) to the letters 32 code points above them,
  and leaves every other character alone.
\<close>

definition is_digit :: "char \<Rightarrow> bool" where
  "is_digit c = (c \<in> set ''0123456789'')"

definition is_space :: "char \<Rightarrow> bool" where
  "is_space c =
     (c \<in> set [CHR 0x09, CHR 0x0A, CHR 0x0B, CHR 0x0C, CHR 0x0D,
                CHR 0x1C, CHR 0x1D, CHR 0x1E, CHR 0x1F, CHR '' '',
                CHR 0x85, CHR 0xA0])"

definition upper_letters :: string where
  "upper_letters =
     ''ABCDEFGHIJKLMNOPQRSTUVWXYZ''
     @ [CHR 0xC0, CHR 0xC1, CHR 0xC2, CHR 0xC3, CHR 0xC4, CHR 0xC5, CHR 0xC6, CHR 0xC7,
           CHR 0xC8, CHR 0xC9, CHR 0xCA, CHR 0xCB, CHR 0xCC, CHR 0xCD, CHR 0xCE, CHR 0xCF,
           CHR 0xD0, CHR 0xD1, CHR 0xD2, CHR 0xD3, CHR 0xD4, CHR 0xD5, CHR 0xD6, CHR 0xD8,
           CHR 0xD9, CHR 0xDA, CHR 0xDB, CHR 0xDC, CHR 0xDD, CHR 0xDE]"

definition lower_letters :: string where
  "lower_letters =
     ''abcdefghijklmnopqrstuvwxyz''
     @ [CHR 0xE0, CHR 0xE1, CHR 0xE2, CHR 0xE3, CHR 0xE4, CHR 0xE5, CHR 0xE6, CHR 0xE7,
           CHR 0xE8, CHR 0xE9, CHR 0xEA, CHR 0xEB, CHR 0xEC, CHR 0xED, CHR 0xEE, CHR 0xEF,
           CHR 0xF0, CHR 0xF1, CHR 0xF2, CHR 0xF3, CHR 0xF4, CHR 0xF5, CHR 0xF6, CHR 0xF8,
           CHR 0xF9, CHR 0xFA, CHR 0xFB, CHR 0xFC, CHR 0xFD, CHR 0xFE]"

definition lower_char :: "char \<Rightarrow> char" where
  "lower_char c =
     (case map_of (zip upper_letters lower_letters) c of
        Some d \<Rightarrow> d
      | None \<Rightarrow> c)"

text \<open>\<^verbatim>\<open>s.lower()\<close>\<close>

definition lower :: "string \<Rightarrow> string" where
  "lower s = map lower_char s"

text \<open>\<^verbatim>\<open>s.strip()\<close>: white space is removed at both ends, never inside.\<close>

definition strip :: "string \<Rightarrow> string" where
  "strip s = rev (dropWhile is_space (rev (dropWhile is_space s)))"

text \<open>
  \<^verbatim>\<open>text.split("\n")\<close>: the pieces between line feeds; a text without a line feed is one
  piece, and the empty text is one empty piece.
\<close>

fun split_nl :: "string \<Rightarrow> string list" where
  "split_nl [] = [Nil]"
| "split_nl (c # cs) =
     (if c = CHR 0x0A then [] # split_nl cs
      else (case split_nl cs of
              [] \<Rightarrow> [c # Nil]
            | l # ls \<Rightarrow> (c # l) # ls))"

text \<open>\<^verbatim>\<open>s.startswith(p)\<close>, the test behind the substring operator.\<close>

fun starts_with :: "string \<Rightarrow> string \<Rightarrow> bool" where
  "starts_with s [] = True"
| "starts_with [] (p # ps) = False"
| "starts_with (c # cs) (p # ps) = (c = p \<and> starts_with cs ps)"

text \<open>\<^verbatim>\<open>sub in s\<close>: \<open>sub\<close> occurs in \<open>s\<close> as a contiguous substring.\<close>

fun str_in :: "string \<Rightarrow> string \<Rightarrow> bool" where
  "str_in sub [] = starts_with [] sub"
| "str_in sub (c # cs) = (starts_with (c # cs) sub \<or> str_in sub cs)"

text \<open>\<^verbatim>\<open>sep.join(xs)\<close>\<close>

fun join :: "string \<Rightarrow> string list \<Rightarrow> string" where
  "join sep [] = []"
| "join sep [x] = x"
| "join sep (x # y # ys) = x @ sep @ join sep (y # ys)"

text \<open>\<^verbatim>\<open>s.replace(c, "")\<close> for a one-character \<open>c\<close>: every occurrence is deleted.\<close>

definition remove_char :: "char \<Rightarrow> string \<Rightarrow> string" where
  "remove_char c s = filter (\<lambda>x. x \<noteq> c) s"

section \<open>Label Normalizer: \<^verbatim>\<open>normalize_label\<close>\<close>

definition normalize_label :: "string \<Rightarrow> string" where
  "normalize_label line =
     (let lower = lower line in
      if str_in ''total net sales'' lower \<or> str_in ''net sales'' lower then ''Revenue''
      else if str_in ''cost of sales'' lower then ''Cost of Revenue''
      else if str_in ''gross margin'' lower \<or> str_in ''gross profit'' lower then ''Gross Profit''
      else if str_in ''operating income'' lower then ''Operating Income''
      else if str_in ''operating expenses'' lower then ''Operating Expenses''
      else if str_in ''net income'' lower \<or> str_in ''net profit'' lower
              \<or> str_in ''net earnings'' lower then ''Net Income''
      else if str_in ''earnings per share'' lower \<or> str_in ''eps'' lower then ''EPS''
      else ''UNKNOWN'')"

text \<open>
  The rule table of the specification (section 4.4): seven phrase sets with their
  canonical labels, in priority order.
\<close>

definition label_rules :: "(string list \<times> string) list" where
  "label_rules =
     [([''total net sales'', ''net sales''], ''Revenue''),
      ([''cost of sales''], ''Cost of Revenue''),
      ([''gross margin'', ''gross profit''], ''Gross Profit''),
      ([''operating income''], ''Operating Income''),
      ([''operating expenses''], ''Operating Expenses''),
      ([''net income'', ''net profit'', ''net earnings''], ''Net Income''),
      ([''earnings per share'', ''eps''], ''EPS'')]"

text \<open>A rule matches a lowercased line when one of its phrases occurs in it.\<close>

definition rule_matches :: "string \<Rightarrow> string list \<times> string \<Rightarrow> bool" where
  "rule_matches l r = list_ex (\<lambda>p. str_in p l) (fst r)"

text \<open>The label of the earliest-listed matching rule, the sentinel when none matches.\<close>

definition first_match :: "(string list \<times> string) list \<Rightarrow> string \<Rightarrow> string" where
  "first_match rules l =
     (case find (rule_matches l) rules of
        None \<Rightarrow> ''UNKNOWN''
      | Some r \<Rightarrow> snd r)"

section \<open>Regular expressions: the part of \<^verbatim>\<open>re\<close> that \<^verbatim>\<open>main.py\<close> uses\<close>

text \<open>
  The two patterns of the program are sequences of one-character atoms, each taken once
  or under one of the greedy quantifiers \<^verbatim>\<open>?\<close> and \<^verbatim>\<open>*\<close>. The matcher is the
  backtracking one of Python: a quantifier first takes as much as it can and gives
  characters back only when the rest of the pattern fails.
\<close>

datatype atom = Lit char | Digit | OneOf "atom list"

fun atom_matches :: "atom \<Rightarrow> char \<Rightarrow> bool" where
  "atom_matches (Lit a) c = (c = a)"
| "atom_matches Digit c = is_digit c"
| "atom_matches (OneOf as) c = list_ex (\<lambda>a. atom_matches a c) as"

datatype item = One atom | Opt atom | Star atom

text \<open>
  \<open>match_here p s\<close> is the text matched by the pattern \<open>p\<close> at the start of \<open>s\<close>, as
  \<^verbatim>\<open>re.match\<close> finds it, or \<open>None\<close>.
\<close>

fun match_here :: "item list \<Rightarrow> string \<Rightarrow> string option" where
  "match_here [] s = Some []"
| "match_here (One a # p) [] = None"
| "match_here (One a # p) (c # cs) =
     (if atom_matches a c then map_option ((#) c) (match_here p cs) else None)"
| "match_here (Opt a # p) [] = match_here p []"
| "match_here (Opt a # p) (c # cs) =
     (if atom_matches a c then
        (case match_here p cs of
           Some m \<Rightarrow> Some (c # m)
         | None \<Rightarrow> match_here p (c # cs))
      else match_here p (c # cs))"
| "match_here (Star a # p) [] = match_here p []"
| "match_here (Star a # p) (c # cs) =
     (if atom_matches a c then
        (case match_here (Star a # p) cs of
           Some m \<Rightarrow> Some (c # m)
         | None \<Rightarrow> match_here p (c # cs))
      else match_here p (c # cs))"

text \<open>\<^verbatim>\<open>re.search(p, s)\<close>, read as a truth value: the pattern matches somewhere in \<open>s\<close>.\<close>

fun re_search :: "item list \<Rightarrow> string \<Rightarrow> bool" where
  "re_search p [] = (match_here p [] \<noteq> None)"
| "re_search p (c # cs) = (match_here p (c # cs) \<noteq> None \<or> re_search p cs)"

text \<open>
  \<^verbatim>\<open>re.findall(p, s)\<close> for a pattern without groups: the matches from left to right,
  each search starting where the previous match ended. After an empty match the scan
  moves on by one character.
\<close>

function re_findall :: "item list \<Rightarrow> string \<Rightarrow> string list" where
  "re_findall p [] = (case match_here p [] of None \<Rightarrow> [] | Some m \<Rightarrow> [m])"
| "re_findall p (c # cs) =
     (case match_here p (c # cs) of
        None \<Rightarrow> re_findall p cs
      | Some m \<Rightarrow>
          if m = [] then [] # re_findall p cs
          else m # re_findall p (drop (length m) (c # cs)))"
  by pat_completeness auto
termination
  by (relation "measure (\<lambda>(p, s). length s)") auto

section \<open>Numeric Token Parser: \<^verbatim>\<open>extract_numbers\<close>\<close>

text \<open>The pattern \<^verbatim>\<open>\(?-?\d[\d,\.]*\)?\<close>.\<close>

definition number_pattern :: "item list" where
  "number_pattern =
     [Opt (Lit CHR ''(''), Opt (Lit CHR ''-''), One Digit,
      Star (OneOf [Digit, Lit CHR '','', Lit CHR ''.'']), Opt (Lit CHR '')'')]"

text \<open>The body of the loop over the matches: one raw match to one token.\<close>

definition clean_number :: "string \<Rightarrow> string" where
  "clean_number num0 =
     (let num = remove_char CHR '','' num0 in
      if CHR ''('' \<in> set num \<and> CHR '')'' \<in> set num
      then CHR ''-'' # remove_char CHR '')'' (remove_char CHR ''('' num)
      else num)"

text \<open>The loop, with the list \<^verbatim>\<open>clean_numbers\<close> that it appends to.\<close>

fun clean_loop :: "string list \<Rightarrow> string list \<Rightarrow> string list" where
  "clean_loop [] clean_numbers = clean_numbers"
| "clean_loop (num # numbers) clean_numbers =
     clean_loop numbers (clean_numbers @ [clean_number num])"

definition extract_numbers :: "string \<Rightarrow> string list" where
  "extract_numbers line = clean_loop (re_findall number_pattern line) []"

section \<open>Page Text Extractor: \<^verbatim>\<open>extract_text_from_pdf\<close>\<close>

text \<open>
  The PDF library is not part of the program, so it is a parameter: \<open>open_pdf\<close> is
  \<^verbatim>\<open>pdfplumber.open\<close> followed by \<^verbatim>\<open>.pages\<close>, which either raises an exception of the
  library (of type \<open>'e\<close>) or gives the pages, and \<open>page_text\<close> is
  \<^verbatim>\<open>page.extract_text()\<close>, which raises or returns \<^verbatim>\<open>None\<close> or a string. The program has
  no \<^verbatim>\<open>try\<close>: an exception of either call leaves the function, which is the \<open>Inl\<close>
  result.
\<close>

type_synonym bytes = "8 word list"

text \<open>The truth value of \<^verbatim>\<open>page_text\<close> in \<^verbatim>\<open>if page_text:\<close>.\<close>

fun truthy :: "string option \<Rightarrow> bool" where
  "truthy None = False"
| "truthy (Some t) = (t \<noteq> [])"

text \<open>The loop over \<^verbatim>\<open>pdf.pages[:40]\<close>, with the text accumulated so far.\<close>

fun pages_loop :: "('p \<Rightarrow> 'e + string option) \<Rightarrow> 'p list \<Rightarrow> string \<Rightarrow> 'e + string" where
  "pages_loop page_text [] text = Inr text"
| "pages_loop page_text (page # pages) text =
     (case page_text page of
        Inl e \<Rightarrow> Inl e
      | Inr t \<Rightarrow>
          if truthy t then pages_loop page_text pages (text @ the t @ [CHR 0x0A])
          else pages_loop page_text pages text)"

definition extract_text_from_pdf ::
  "(bytes \<Rightarrow> 'e + 'p list) \<Rightarrow> ('p \<Rightarrow> 'e + string option) \<Rightarrow> bytes \<Rightarrow> 'e + string" where
  "extract_text_from_pdf open_pdf page_text file_bytes =
     (case open_pdf file_bytes of
        Inl e \<Rightarrow> Inl e
      | Inr pages \<Rightarrow> pages_loop page_text (take 40 pages) [])"

section \<open>Candidate Line Filter: \<^verbatim>\<open>get_income_statement_lines\<close>\<close>

definition financial_terms :: "string list" where
  "financial_terms =
     [''revenue'', ''sales'', ''cost'', ''gross'',
      ''operating income'', ''operating expenses'',
      ''net income'', ''earnings per share'', ''eps'']"

text \<open>The loop over the lines, with the list \<^verbatim>\<open>extracted\<close> that it appends to.\<close>

fun lines_loop :: "string list \<Rightarrow> string list \<Rightarrow> string list" where
  "lines_loop [] extracted = extracted"
| "lines_loop (line # lines) extracted =
     (let clean = strip line;
          lower = lower clean
      in if re_search [One Digit] clean \<and> list_ex (\<lambda>term. str_in term lower) financial_terms
         then lines_loop lines (extracted @ [clean])
         else lines_loop lines extracted)"

definition get_income_statement_lines :: "string \<Rightarrow> string list" where
  "get_income_statement_lines text = lines_loop (split_nl text) []"

section \<open>Extraction Orchestrator: \<^verbatim>\<open>extract_financials\<close>\<close>

text \<open>A row is the dictionary with the three keys that the endpoint builds.\<close>

record row =
  raw_line :: string
  standard_label :: string
  values_found :: string

text \<open>The loop over the candidate lines, with the list \<^verbatim>\<open>data\<close> that it appends to.\<close>

fun rows_loop :: "string list \<Rightarrow> row list \<Rightarrow> row list" where
  "rows_loop [] data = data"
| "rows_loop (line # lines) data =
     (let label = normalize_label line;
          numbers = extract_numbers line
      in if label \<noteq> ''UNKNOWN'' \<and> numbers \<noteq> []
         then rows_loop lines
                (data @ [\<lparr>raw_line = line, standard_label = label,
                          values_found = join '', '' numbers\<rparr>])
         else rows_loop lines data)"

definition info_row :: row where
  "info_row =
     \<lparr>raw_line = ''No income statement data detected in first 40 pages.'',
      standard_label = ''INFO'',
      values_found = []\<rparr>"

text \<open>
  The data frame is the list of its rows; \<^verbatim>\<open>df.empty\<close> holds when there is no row, and
  then the frame is replaced by the one with the informational row.
\<close>

definition data_frame :: "row list \<Rightarrow> row list" where
  "data_frame data = (if data = [] then [info_row] else data)"

text \<open>
  \<^verbatim>\<open>df.to_csv(stream, index=False)\<close> with the defaults of pandas: a header line with
  the column names, one line per row, fields separated by commas, lines ended by a line
  feed, and minimal quoting (a field with a comma, a double quote, a line feed or a
  carriage return is put in double quotes, its double quotes doubled).
\<close>

definition csv_field :: "string \<Rightarrow> string" where
  "csv_field f =
     (if list_ex (\<lambda>c. c \<in> set [CHR '','', CHR 0x22, CHR 0x0A, CHR 0x0D]) f
      then [CHR 0x22] @ concat (map (\<lambda>c. if c = CHR 0x22 then [c, c] else [c]) f) @ [CHR 0x22]
      else f)"

definition csv_line :: "string list \<Rightarrow> string" where
  "csv_line cells = join '','' (map csv_field cells) @ [CHR 0x0A]"

definition to_csv :: "row list \<Rightarrow> string" where
  "to_csv df =
     csv_line [''Raw Line'', ''Standard Label'', ''Values Found'']
     @ concat (map (\<lambda>r. csv_line [raw_line r, standard_label r, values_found r]) df)"

text \<open>
  The \<^verbatim>\<open>StreamingResponse\<close> that the endpoint returns; it is built without a status, so
  it has the default one, 200.
\<close>

record response =
  status_code :: nat
  media_type :: string
  content_disposition :: string
  body :: string

text \<open>
  The part of the endpoint after the text extraction: the list \<^verbatim>\<open>data\<close> of the rows of
  the candidate lines, and the CSV of its data frame.
\<close>

definition data_rows :: "string \<Rightarrow> row list" where
  "data_rows text = rows_loop (get_income_statement_lines text) []"

definition csv_of_text :: "string \<Rightarrow> string" where
  "csv_of_text text = to_csv (data_frame (data_rows text))"

definition extract_financials ::
  "(bytes \<Rightarrow> 'e + 'p list) \<Rightarrow> ('p \<Rightarrow> 'e + string option) \<Rightarrow> bytes \<Rightarrow> 'e + response" where
  "extract_financials open_pdf page_text contents =
     (case extract_text_from_pdf open_pdf page_text contents of
        Inl e \<Rightarrow> Inl e
      | Inr text \<Rightarrow>
          Inr \<lparr>status_code = 200,
               media_type = ''text/csv'',
               content_disposition = ''attachment; filename=financial_extraction.csv'',
               body = csv_of_text text\<rparr>)"

section \<open>The specification's descriptions, as definitions\<close>

subsection \<open>Numeric tokens (section 4.3)\<close>

text \<open>A character that continues a number: a digit, a comma or a period.\<close>

definition number_char :: "char \<Rightarrow> bool" where
  "number_char c = (is_digit c \<or> c = CHR '','' \<or> c = CHR ''.'')"

text \<open>
  What follows the first digit of a token: the longest run of digits, commas and periods,
  then a closing parenthesis when one comes next.
\<close>

definition token_tail :: "string \<Rightarrow> string" where
  "token_tail t =
     takeWhile number_char t
     @ (case dropWhile number_char t of
          [] \<Rightarrow> []
        | c # _ \<Rightarrow> if c = CHR '')'' then '')'' else [])"

text \<open>A digit and what follows it.\<close>

definition number_from :: "string \<Rightarrow> string option" where
  "number_from s =
     (case s of
        [] \<Rightarrow> None
      | d # t \<Rightarrow> if is_digit d then Some (d # token_tail t) else None)"

text \<open>An optional character \<open>a\<close> at the start of \<open>s\<close>: what was taken, and the rest.\<close>

definition opt_char :: "char \<Rightarrow> string \<Rightarrow> string \<times> string" where
  "opt_char a s = (case s of [] \<Rightarrow> ([], s) | c # t \<Rightarrow> if c = a then ([c], t) else ([], s))"

text \<open>
  The token that starts at the beginning of \<open>s\<close>, with the start of a token read as
  an optional opening parenthesis, then an optional minus sign, then a digit.
\<close>

definition token_at :: "string \<Rightarrow> string option" where
  "token_at s =
     (let (par, s1) = opt_char CHR ''('' s;
          (neg, s2) = opt_char CHR ''-'' s1
      in map_option (\<lambda>m. par @ neg @ m) (number_from s2))"

text \<open>
  The same with the start of a token read as at most one character, an opening
  parenthesis or a minus sign, then a digit.
\<close>

definition stated_token_at :: "string \<Rightarrow> string option" where
  "stated_token_at s =
     (let (lead, s1) =
            (case s of
               [] \<Rightarrow> ([], s)
             | c # t \<Rightarrow> if c = CHR ''('' \<or> c = CHR ''-'' then ([c], t) else ([], s))
      in map_option (\<lambda>m. lead @ m) (number_from s1))"

text \<open>
  The scan from left to right: where a token starts it is taken and the scan goes on
  behind it, elsewhere the scan moves on by one character.
\<close>

fun scan_tokens :: "(string \<Rightarrow> string option) \<Rightarrow> string \<Rightarrow> string list" where
  "scan_tokens tok [] = []"
| "scan_tokens tok (c # cs) =
     (case tok (c # cs) of
        None \<Rightarrow> scan_tokens tok cs
      | Some m \<Rightarrow> m # scan_tokens tok (drop (length m - 1) cs))"

text \<open>
  The value of a token: the commas are removed, and a token with both an opening and a
  closing parenthesis loses its parentheses and gets a minus sign in front.
\<close>

definition token_value :: "string \<Rightarrow> string" where
  "token_value m =
     (if CHR ''('' \<in> set m \<and> CHR '')'' \<in> set m
      then CHR ''-'' # filter (\<lambda>c. c \<notin> set '',()'') m
      else filter (\<lambda>c. c \<noteq> CHR '','') m)"

text \<open>
  The tokens \<open>ms\<close> occur in \<open>s\<close> in this order, one behind the other without
  overlap.
\<close>

fun occur_in_order :: "string list \<Rightarrow> string \<Rightarrow> bool" where
  "occur_in_order [] s = True"
| "occur_in_order (m # ms) s = (\<exists>pre post. s = pre @ m @ post \<and> occur_in_order ms post)"

text \<open>
  A signed decimal numeral (section 3): an optional minus sign, digits, and optionally a
  period with digits behind it.
\<close>

definition signed_decimal :: "string \<Rightarrow> bool" where
  "signed_decimal s =
     (let u = (case s of [] \<Rightarrow> [] | c # t \<Rightarrow> if c = CHR ''-'' then t else s);
          i = takeWhile is_digit u;
          r = dropWhile is_digit u
      in i \<noteq> [] \<and> (r = [] \<or> (hd r = CHR ''.'' \<and> tl r \<noteq> [] \<and> list_all is_digit (tl r))))"

subsection \<open>Candidate lines (section 4.2)\<close>

definition spec_keywords :: "string set" where
  "spec_keywords =
     {''revenue'', ''sales'', ''cost'', ''gross'', ''operating income'',
      ''operating expenses'', ''net income'', ''earnings per share'', ''eps''}"

text \<open>A line with a digit whose lowercased form contains a keyword.\<close>

definition is_candidate :: "string \<Rightarrow> bool" where
  "is_candidate l = ((\<exists>c \<in> set l. is_digit c) \<and> (\<exists>k \<in> spec_keywords. str_in k (lower l)))"

subsection \<open>Rows (sections 3 and 4.5)\<close>

definition canonical_labels :: "string set" where
  "canonical_labels =
     {''Revenue'', ''Cost of Revenue'', ''Gross Profit'', ''Operating Income'',
      ''Operating Expenses'', ''Net Income'', ''EPS''}"

text \<open>A candidate line gives a row when its label is recognized and it has a token.\<close>

definition qualifies :: "string \<Rightarrow> bool" where
  "qualifies l = (normalize_label l \<noteq> ''UNKNOWN'' \<and> extract_numbers l \<noteq> [])"

text \<open>The row of a line: the line, its label and its values joined.\<close>

definition row_of :: "string \<Rightarrow> row" where
  "row_of l =
     \<lparr>raw_line = l, standard_label = normalize_label l,
      values_found = join '', '' (extract_numbers l)\<rparr>"

text \<open>
  The qualifying lines of a text: its lines, trimmed, that are candidate lines and give a
  row, in the order of the text.
\<close>

definition qualifying_lines :: "string \<Rightarrow> string list" where
  "qualifying_lines text = filter qualifies (filter is_candidate (map strip (split_nl text)))"

subsection \<open>Page text (section 4.1)\<close>

text \<open>
  What a page adds to the text: its extracted text followed by a line feed, and nothing
  when the page yields no text, be it no text at all or the empty text.
\<close>

definition page_part :: "string option \<Rightarrow> string" where
  "page_part t =
     (case t of
        None \<Rightarrow> []
      | Some s \<Rightarrow> if s = [] then [] else s @ [CHR 0x0A])"

subsection \<open>Failures (section 7)\<close>

text \<open>
  The outcome of a request is a failure answered to the caller with a status from 400 to
  499. An exception of the library that leaves the endpoint is not such an answer: the
  program does not turn it into a response.
\<close>

definition client_error :: "'e + response \<Rightarrow> bool" where
  "client_error out =
     (case out of
        Inl e \<Rightarrow> False
      | Inr r \<Rightarrow> 400 \<le> status_code r \<and> status_code r < 500)"

text \<open>
  A library for the examples: pages are their own text, every page gives its text, and a
  byte stream is a document when it starts with the four bytes \<^verbatim>\<open>%PDF\<close>; its pages are
  then fifty pages: forty of which the second has the empty text, the third has no text
  and the others have a revenue line, and ten more with a line of their own.
\<close>

definition example_pages :: "string option list" where
  "example_pages =
     Some ''Net sales 1,200 900'' # Some [] # None
     # replicate 37 (Some ''Net sales 1,200 900'') @ replicate 10 (Some ''Net income 77'')"

definition example_open :: "bytes \<Rightarrow> string + string option list" where
  "example_open b =
     (if take 4 b = [0x25, 0x50, 0x44, 0x46] then Inr example_pages
      else Inl ''PDFSyntaxError'')"

definition example_page_text :: "string option \<Rightarrow> string + string option" where
  "example_page_text page = Inr page"

section \<open>Properties\<close>

subsection \<open>Substrings\<close>

lemma starts_with_iff: "starts_with s p \<longleftrightarrow> (\<exists>post. s = p @ post)"
  by (induction s p rule: starts_with.induct) auto

lemma str_in_iff: "str_in sub s \<longleftrightarrow> (\<exists>pre post. s = pre @ sub @ post)"
proof (induction s)
  case Nil
  then show ?case by (simp add: starts_with_iff)
next
  case (Cons c cs)
  show ?case
  proof
    assume "str_in sub (c # cs)"
    then consider "starts_with (c # cs) sub" | "str_in sub cs" by auto
    then show "\<exists>pre post. c # cs = pre @ sub @ post"
    proof cases
      case 1
      then obtain post where "c # cs = sub @ post" by (auto simp: starts_with_iff)
      then have "c # cs = [] @ sub @ post" by simp
      then show ?thesis by blast
    next
      case 2
      then obtain pre post where "cs = pre @ sub @ post" using Cons.IH by auto
      then have "c # cs = (c # pre) @ sub @ post" by simp
      then show ?thesis by blast
    qed
  next
    assume "\<exists>pre post. c # cs = pre @ sub @ post"
    then obtain pre post where e: "c # cs = pre @ sub @ post" by blast
    show "str_in sub (c # cs)"
    proof (cases pre)
      case Nil
      with e have "starts_with (c # cs) sub" unfolding starts_with_iff by auto
      then show ?thesis by simp
    next
      case (Cons a pre')
      with e have "cs = pre' @ sub @ post" by simp
      then show ?thesis using Cons.IH by auto
    qed
  qed
qed

subsection \<open>Label Normalizer\<close>

text \<open>
  Claim C1. For every line, \<open>normalize_label\<close> returns the label of the earliest-listed
  phrase set of the rule table (Revenue, Cost of Revenue, Gross Profit, Operating Income,
  Operating Expenses, Net Income, EPS) of which a phrase occurs in the lowercased line,
  and the sentinel when there is none; in particular a line whose lowercased form
  contains both \<^verbatim>\<open>net sales\<close> and \<^verbatim>\<open>net income\<close> normalizes to Revenue.
\<close>

theorem normalize_label_priority:
  "normalize_label line = first_match label_rules (lower line)
   \<and> (str_in ''net sales'' (lower line) \<and> str_in ''net income'' (lower line)
        \<longrightarrow> normalize_label line = ''Revenue'')"
  by (simp add: normalize_label_def first_match_def label_rules_def rule_matches_def Let_def)

text \<open>
  The line of the specification's priority test has both phrases, and its label is
  Revenue.
\<close>

theorem normalize_label_priority_witness:
  "str_in ''net sales'' (lower ''Net sales and net income both rose'')
   \<and> str_in ''net income'' (lower ''Net sales and net income both rose'')
   \<and> normalize_label ''Net sales and net income both rose'' = ''Revenue''
   \<and> first_match label_rules (lower ''Net sales and net income both rose'') = ''Revenue''"
proof -
  have l: "lower ''Net sales and net income both rose'' = ''net sales and net income both rose''"
    by (simp add: lower_def lower_char_def upper_letters_def lower_letters_def)
  have a: "str_in ''net sales'' ''net sales and net income both rose''" by simp
  have b: "str_in ''net income'' ''net sales and net income both rose''" by simp
  from normalize_label_priority [of "''Net sales and net income both rose''"] a b
  have "normalize_label ''Net sales and net income both rose''
          = first_match label_rules ''net sales and net income both rose''"
    and "normalize_label ''Net sales and net income both rose'' = ''Revenue''"
    unfolding l by blast+
  with a b show ?thesis unfolding l by metis
qed

subsection \<open>Numeric Token Parser\<close>

lemma match_tail:
  "match_here [Star (OneOf [Digit, Lit CHR '','', Lit CHR ''.'']), Opt (Lit CHR '')'')] t
     = Some (token_tail t)"
  by (induction t) (auto simp: token_tail_def number_char_def)

lemma match_number:
  "match_here [One Digit, Star (OneOf [Digit, Lit CHR '','', Lit CHR ''.'']), Opt (Lit CHR '')'')] s
     = number_from s"
  by (cases s) (auto simp: number_from_def match_tail)

lemma match_opt_lit:
  "match_here (Opt (Lit a) # p) s =
     (let (x, r) = opt_char a s in
      case match_here p r of Some m \<Rightarrow> Some (x @ m) | None \<Rightarrow> match_here p s)"
  by (cases s) (auto simp: opt_char_def split: option.splits)

lemma number_from_lead: "c = CHR ''('' \<or> c = CHR ''-'' \<Longrightarrow> number_from (c # t) = None"
  by (auto simp: number_from_def is_digit_def)

text \<open>The backtracking matcher on the number pattern finds the token of the description.\<close>

lemma match_number_pattern: "match_here number_pattern s = token_at s"
proof -
  define p where
    "p = [One Digit, Star (OneOf [Digit, Lit CHR '','', Lit CHR ''.'']), Opt (Lit CHR '')'')]"
  have p: "match_here p u = number_from u" for u
    unfolding p_def by (rule match_number)
  have np: "number_pattern = Opt (Lit CHR ''('') # Opt (Lit CHR ''-'') # p"
    by (simp add: number_pattern_def p_def)
  have neg: "match_here (Opt (Lit CHR ''-'') # p) u
               = (let (neg, s2) = opt_char CHR ''-'' u
                  in map_option (\<lambda>m. neg @ m) (number_from s2))" for u
    unfolding match_opt_lit p
    by (cases u) (auto simp: opt_char_def number_from_lead split: option.splits)
  show ?thesis
    unfolding np match_opt_lit [of "CHR ''(''"] neg token_at_def
    by (cases s) (auto simp: opt_char_def number_from_lead split: option.splits list.splits)
qed

lemma token_at_nonempty: "token_at s = Some m \<Longrightarrow> m \<noteq> []"
  by (auto simp: token_at_def number_from_def opt_char_def
           split: list.splits if_splits prod.splits)

lemma findall_scan: "re_findall number_pattern s = scan_tokens token_at s"
proof (induction s rule: length_induct)
  case (1 s)
  show ?case
  proof (cases s)
    case Nil
    then show ?thesis
      by (simp add: match_number_pattern token_at_def opt_char_def number_from_def)
  next
    case (Cons c cs)
    show ?thesis
    proof (cases "token_at (c # cs)")
      case None
      with Cons 1 show ?thesis by (simp add: match_number_pattern)
    next
      case (Some m)
      then have ne: "m \<noteq> []" by (rule token_at_nonempty)
      then have d: "drop (length m) (c # cs) = drop (length m - 1) cs"
        by (cases m) simp_all
      have "length (drop (length m - 1) cs) < length s" using Cons by simp
      with 1 have "re_findall number_pattern (drop (length m - 1) cs)
                    = scan_tokens token_at (drop (length m - 1) cs)" by blast
      with Cons Some ne d show ?thesis by (simp add: match_number_pattern)
    qed
  qed
qed

lemma clean_loop_map: "clean_loop xs acc = acc @ map clean_number xs"
  by (induction xs arbitrary: acc) auto

lemma extract_numbers_scan: "extract_numbers line = map clean_number (scan_tokens token_at line)"
  by (simp add: extract_numbers_def findall_scan clean_loop_map)

lemma clean_number_value: "clean_number m = token_value m"
  by (auto simp: clean_number_def token_value_def remove_char_def Let_def intro: filter_cong)

text \<open>
  Claim C2, as amended. For every line, \<open>extract_numbers\<close> returns, from left to right,
  the value of every token of the scan, where a token is an optional opening parenthesis,
  then an optional minus sign, a digit, a run of digits, commas and periods, and an
  optional closing parenthesis; commas are removed from each token, and a token with both
  parentheses loses them and gets a minus sign in front. A line without a token gives the
  empty list.
\<close>

theorem extract_numbers_tokens:
  "extract_numbers line = map token_value (scan_tokens token_at line)
   \<and> (scan_tokens token_at line = [] \<longrightarrow> extract_numbers line = [])"
  by (simp add: extract_numbers_scan clean_number_value)

text \<open>
  The examples of the specification: two plain numbers, a number in parentheses, and a
  line without a number.
\<close>

theorem extract_numbers_tokens_witness:
  "extract_numbers ''Total net sales 1,200 900'' = [''1200'', ''900'']
   \<and> extract_numbers ''Cost of sales (1,234)'' = [''-1234'']
   \<and> scan_tokens token_at ''Gross margin'' = []
   \<and> extract_numbers ''Gross margin'' = []"
proof -
  have a: "map token_value (scan_tokens token_at ''Total net sales 1,200 900'')
             = [''1200'', ''900'']"
    by (simp add: token_at_def opt_char_def number_from_def token_tail_def number_char_def
          is_digit_def token_value_def)
  have b: "map token_value (scan_tokens token_at ''Cost of sales (1,234)'') = [''-1234'']"
    by (simp add: token_at_def opt_char_def number_from_def token_tail_def number_char_def
          is_digit_def token_value_def)
  have c: "scan_tokens token_at ''Gross margin'' = []"
    by (simp add: token_at_def opt_char_def number_from_def token_tail_def number_char_def
          is_digit_def)
  from extract_numbers_tokens [of "''Total net sales 1,200 900''"]
       extract_numbers_tokens [of "''Cost of sales (1,234)''"]
       extract_numbers_tokens [of "''Gross margin''"] a b c
  show ?thesis by simp
qed

text \<open>
  Claim C2, as stated, reads the start of a token as one optional character, an opening
  parenthesis or a minus sign. The pattern of the program takes both, one after the
  other: on \<^verbatim>\<open>(-5)\<close> the program finds the token \<^verbatim>\<open>(-5)\<close> and returns \<^verbatim>\<open>--5\<close>, where
  the scan of the claim finds the token \<^verbatim>\<open>-5)\<close> and leaves it as it is.
\<close>

theorem extract_numbers_paren_minus_counterexample:
  "extract_numbers ''(-5)'' = [''--5'']
   \<and> map token_value (scan_tokens stated_token_at ''(-5)'') = [''-5)'']"
  by (simp add: extract_numbers_def number_pattern_def clean_number_def remove_char_def
        is_digit_def stated_token_at_def number_from_def token_tail_def number_char_def
        token_value_def)

text \<open>
  Claim C10. There is a line with a number behind an opening parenthesis that is never
  closed: on \<^verbatim>\<open>Net income (1,23\<close> the program returns the single token \<^verbatim>\<open>(123\<close>, which
  keeps the parenthesis, has no minus sign and is not a signed decimal numeral, and the
  row of that line carries it as its value.
\<close>

theorem unclosed_parenthesis_token:
  "extract_numbers ''Net income (1,23'' = [''(123'']
   \<and> CHR ''('' \<in> set ''(123'' \<and> CHR ''-'' \<notin> set ''(123'' \<and> \<not> signed_decimal ''(123''
   \<and> rows_loop [''Net income (1,23''] []
       = [\<lparr>raw_line = ''Net income (1,23'', standard_label = ''Net Income'',
            values_found = ''(123''\<rparr>]"
  by (simp add: extract_numbers_def number_pattern_def clean_number_def remove_char_def
        is_digit_def signed_decimal_def normalize_label_def lower_def lower_char_def
        upper_letters_def lower_letters_def)

subsection \<open>Candidate Line Filter\<close>

lemma search_digit: "re_search [One Digit] s \<longleftrightarrow> (\<exists>c \<in> set s. is_digit c)"
  by (induction s) auto

lemma terms_keywords: "set financial_terms = spec_keywords"
  by (simp add: financial_terms_def spec_keywords_def)

lemma lines_loop_filter: "lines_loop ls acc = acc @ filter is_candidate (map strip ls)"
  by (induction ls arbitrary: acc)
     (auto simp: Let_def is_candidate_def search_digit list_ex_iff terms_keywords)

lemma candidate_lines:
  "get_income_statement_lines text = filter is_candidate (map strip (split_nl text))"
  by (simp add: get_income_statement_lines_def lines_loop_filter)

text \<open>
  Claim C3. For every text, \<open>get_income_statement_lines\<close> returns exactly the trimmed
  lines, in their order, that have a digit and whose lowercased form contains one of the
  nine keywords; so every line of the result has a digit, and a blank line or a line that
  fails a test is left out without an error.
\<close>

theorem candidate_lines_filter:
  "get_income_statement_lines text = filter is_candidate (map strip (split_nl text))
   \<and> (\<forall>l \<in> set (get_income_statement_lines text). \<exists>c \<in> set l. is_digit c)"
  by (auto simp: candidate_lines is_candidate_def)

text \<open>
  A text of seven lines: a heading without a digit, a statement line in white space, a
  line with a digit and no keyword, a blank line, a statement line in capitals, a keyword
  line without a digit, and a statement line between a no-break space and a next-line
  character.
\<close>

theorem candidate_lines_filter_witness:
  "get_income_statement_lines
     (''Income Statement\<newline>  Total Net Sales 1,200 900  \<newline>Some unrelated text 42\<newline>\<newline>COST OF SALES (1,234)\<newline>Gross margin\<newline>''
      @ [CHR 0xA0] @ ''Net sales 100'' @ [CHR 0x85])
   = [''Total Net Sales 1,200 900'', ''COST OF SALES (1,234)'', ''Net sales 100'']"
proof -
  let ?text = "''Income Statement\<newline>  Total Net Sales 1,200 900  \<newline>Some unrelated text 42\<newline>\<newline>COST OF SALES (1,234)\<newline>Gross margin\<newline>''
      @ [CHR 0xA0] @ ''Net sales 100'' @ [CHR 0x85]"
  have "filter is_candidate (map strip (split_nl ?text))
          = [''Total Net Sales 1,200 900'', ''COST OF SALES (1,234)'', ''Net sales 100'']"
    by code_simp
  with candidate_lines_filter [of ?text] show ?thesis by simp
qed

subsection \<open>Extraction Orchestrator\<close>

lemma rows_loop_filter: "rows_loop ls data = data @ map row_of (filter qualifies ls)"
  by (induction ls arbitrary: data) (auto simp: Let_def qualifies_def row_of_def)

lemma data_rows_filter:
  "data_rows text = map row_of (filter qualifies (get_income_statement_lines text))"
  by (simp add: data_rows_def rows_loop_filter)

lemma normalize_label_range: "normalize_label l \<in> insert ''UNKNOWN'' canonical_labels"
  by (simp add: normalize_label_def canonical_labels_def Let_def)

lemma token_at_digit: "token_at s = Some m \<Longrightarrow> \<exists>c \<in> set m. is_digit c"
  by (auto simp: token_at_def number_from_def opt_char_def Let_def
           split: list.splits if_splits prod.splits)

lemma token_tail_prefix: "\<exists>r. t = token_tail t @ r"
proof -
  define a where "a = takeWhile number_char t"
  define b where "b = dropWhile number_char t"
  define x where "x = (case b of [] \<Rightarrow> [] | c # _ \<Rightarrow> if c = CHR '')'' then '')'' else [])"
  have t: "t = a @ b" by (simp add: a_def b_def)
  have tt: "token_tail t = a @ x" by (simp add: token_tail_def a_def b_def x_def)
  have "\<exists>r. b = x @ r" by (cases b) (auto simp: x_def)
  then obtain r where "b = x @ r" ..
  with t have "t = (a @ x) @ r" by simp
  then show ?thesis unfolding tt ..
qed

lemma number_from_prefix: "number_from s = Some m \<Longrightarrow> \<exists>r. s = m @ r"
  using token_tail_prefix by (cases s) (auto simp: number_from_def split: if_splits)

lemma opt_char_prefix: "opt_char a s = (x, r) \<Longrightarrow> s = x @ r"
  by (cases s) (auto simp: opt_char_def split: if_splits)

lemma token_at_prefix: "token_at s = Some m \<Longrightarrow> \<exists>r. s = m @ r"
proof -
  assume t: "token_at s = Some m"
  obtain par s1 where p: "opt_char CHR ''('' s = (par, s1)" by (cases "opt_char CHR ''('' s")
  obtain neg s2 where n: "opt_char CHR ''-'' s1 = (neg, s2)" by (cases "opt_char CHR ''-'' s1")
  from t p n obtain m' where m': "number_from s2 = Some m'" and m: "m = par @ neg @ m'"
    by (auto simp: token_at_def)
  from m' obtain r where "s2 = m' @ r" by (auto dest: number_from_prefix)
  with opt_char_prefix [OF p] opt_char_prefix [OF n] m have "s = m @ r" by simp
  then show ?thesis ..
qed

lemma scan_tokens_digit: "m \<in> set (scan_tokens token_at s) \<Longrightarrow> \<exists>c \<in> set m. is_digit c"
proof (induction "token_at" s rule: scan_tokens.induct)
  case 1
  then show ?case by simp
next
  case (2 c cs)
  show ?case
  proof (cases "token_at (c # cs)")
    case None
    with 2 show ?thesis by simp
  next
    case (Some m')
    with 2 show ?thesis by (auto dest: token_at_digit)
  qed
qed

lemma scan_tokens_in_order: "occur_in_order (scan_tokens token_at s) s"
proof (induction "token_at" s rule: scan_tokens.induct)
  case 1
  then show ?case by simp
next
  case (2 c cs)
  show ?case
  proof (cases "token_at (c # cs)")
    case None
    with 2 have ih: "occur_in_order (scan_tokens token_at cs) cs" by simp
    show ?thesis
    proof (cases "scan_tokens token_at cs")
      case Nil
      with None show ?thesis by simp
    next
      case (Cons m ms)
      with ih obtain pre post where "cs = pre @ m @ post" and o: "occur_in_order ms post" by auto
      then have e: "c # cs = (c # pre) @ m @ post" by simp
      have "occur_in_order (m # ms) (c # cs)"
        unfolding occur_in_order.simps using e o by blast
      moreover have "scan_tokens token_at (c # cs) = m # ms" using None Cons by simp
      ultimately show ?thesis by simp
    qed
  next
    case (Some m)
    with 2 have ih: "occur_in_order (scan_tokens token_at (drop (length m - 1) cs))
                       (drop (length m - 1) cs)" by simp
    from Some obtain r where r: "c # cs = m @ r" by (auto dest: token_at_prefix)
    from Some have "m \<noteq> []" by (rule token_at_nonempty)
    with r have "drop (length m - 1) cs = r"
      by (cases m) auto
    then have d: "drop (length m - 1) cs = r" .
    from r have e: "c # cs = [] @ m @ r" by simp
    from ih d have o: "occur_in_order (scan_tokens token_at r) r" by simp
    have "occur_in_order (m # scan_tokens token_at r) (c # cs)"
      unfolding occur_in_order.simps using e o by blast
    moreover have "scan_tokens token_at (c # cs) = m # scan_tokens token_at r"
      using Some d by simp
    ultimately show ?thesis by simp
  qed
qed

lemma digit_not_punct: "is_digit c \<Longrightarrow> c \<noteq> CHR '','' \<and> c \<noteq> CHR ''('' \<and> c \<noteq> CHR '')''"
  by (auto simp: is_digit_def)

lemma token_value_digit:
  assumes "\<exists>c \<in> set m. is_digit c"
  shows "\<exists>c \<in> set (token_value m). is_digit c"
proof -
  from assms obtain c where c: "c \<in> set m" "is_digit c" by blast
  with digit_not_punct [of c] have "c \<in> set (token_value m)"
    by (simp add: token_value_def)
  with c show ?thesis by blast
qed

lemma extract_numbers_digit: "t \<in> set (extract_numbers l) \<Longrightarrow> \<exists>c \<in> set t. is_digit c"
  by (auto simp: extract_numbers_scan clean_number_value dest!: scan_tokens_digit token_value_digit)

lemma join_nonempty: "xs \<noteq> [] \<Longrightarrow> hd xs \<noteq> [] \<Longrightarrow> join sep xs \<noteq> []"
  by (induction sep xs rule: join.induct) auto

lemma values_nonempty: "extract_numbers l \<noteq> [] \<Longrightarrow> join sep (extract_numbers l) \<noteq> []"
proof -
  assume ne: "extract_numbers l \<noteq> []"
  then have "hd (extract_numbers l) \<in> set (extract_numbers l)" by simp
  then have "hd (extract_numbers l) \<noteq> []" by (auto dest: extract_numbers_digit)
  with ne show ?thesis by (rule join_nonempty)
qed

text \<open>
  Claim C5. For every text, every row that the loop of the endpoint emits (the rows
  before the fallback for an empty result) has a label other than the sentinel, in fact
  one of the seven canonical labels, and comes from a line with at least one token, so
  that its joined values are not empty; a candidate line whose label is the sentinel or
  that has no token is not the line of any row.
\<close>

theorem emitted_rows_labelled:
  "(\<forall>r \<in> set (data_rows text).
      standard_label r \<noteq> ''UNKNOWN''
      \<and> standard_label r \<in> canonical_labels
      \<and> standard_label r = normalize_label (raw_line r)
      \<and> extract_numbers (raw_line r) \<noteq> []
      \<and> values_found r = join '', '' (extract_numbers (raw_line r))
      \<and> values_found r \<noteq> [])
   \<and> (\<forall>l \<in> set (get_income_statement_lines text).
        normalize_label l = ''UNKNOWN'' \<or> extract_numbers l = []
        \<longrightarrow> l \<notin> raw_line ` set (data_rows text))"
proof -
  have "standard_label r \<in> canonical_labels" if "r \<in> set (data_rows text)" for r
    using that normalize_label_range [of "raw_line r"]
    by (auto simp: data_rows_filter qualifies_def row_of_def)
  then show ?thesis
    by (auto simp: data_rows_filter qualifies_def row_of_def values_nonempty)
qed

text \<open>
  A text with two statement lines and, between them, a candidate line that has the keyword
  \<^verbatim>\<open>revenue\<close> and a digit but no phrase of the rule table: it gives no row.
\<close>

theorem emitted_rows_labelled_witness:
  "data_rows ''Total net sales 1,200 900\<newline>Revenue outlook 2024\<newline>Cost of sales (1,234)''
     = [\<lparr>raw_line = ''Total net sales 1,200 900'', standard_label = ''Revenue'',
          values_found = ''1200, 900''\<rparr>,
        \<lparr>raw_line = ''Cost of sales (1,234)'', standard_label = ''Cost of Revenue'',
          values_found = ''-1234''\<rparr>]
   \<and> ''Revenue outlook 2024''
       \<in> set (get_income_statement_lines
                ''Total net sales 1,200 900\<newline>Revenue outlook 2024\<newline>Cost of sales (1,234)'')
   \<and> normalize_label ''Revenue outlook 2024'' = ''UNKNOWN''
   \<and> ''Revenue outlook 2024''
       \<notin> raw_line ` set (data_rows
                ''Total net sales 1,200 900\<newline>Revenue outlook 2024\<newline>Cost of sales (1,234)'')"
proof -
  let ?text = "''Total net sales 1,200 900\<newline>Revenue outlook 2024\<newline>Cost of sales (1,234)''"
  have a: "get_income_statement_lines ?text
             = [''Total net sales 1,200 900'', ''Revenue outlook 2024'', ''Cost of sales (1,234)'']"
    by code_simp
  have b: "normalize_label ''Revenue outlook 2024'' = ''UNKNOWN''"
    by code_simp
  have c: "data_rows ?text
             = [\<lparr>raw_line = ''Total net sales 1,200 900'', standard_label = ''Revenue'',
                  values_found = ''1200, 900''\<rparr>,
                \<lparr>raw_line = ''Cost of sales (1,234)'', standard_label = ''Cost of Revenue'',
                  values_found = ''-1234''\<rparr>]"
    by code_simp
  have d: "''Revenue outlook 2024'' \<in> set (get_income_statement_lines ?text)"
    unfolding a by simp
  from emitted_rows_labelled [of ?text] d b
  have "''Revenue outlook 2024'' \<notin> raw_line ` set (data_rows ?text)"
    by blast
  with c d b show ?thesis by blast
qed

lemma csv_info:
  "to_csv [info_row]
     = ''Raw Line,Standard Label,Values Found\<newline>No income statement data detected in first 40 pages.,INFO,\<newline>''"
  by code_simp

text \<open>
  Claim C6. For every text in which no candidate line gives a row (each one has the
  sentinel label or no token), the data frame is the single informational row with the
  fixed message, the label \<^verbatim>\<open>INFO\<close> and empty values, the CSV is the header line and
  that one data line, and the endpoint, once the text is extracted, answers with this CSV
  in a response of status 200: the case is a result, not an error.
\<close>

theorem no_data_fallback:
  assumes "\<forall>l \<in> set (get_income_statement_lines text).
             normalize_label l = ''UNKNOWN'' \<or> extract_numbers l = []"
  shows "data_frame (data_rows text)
           = [\<lparr>raw_line = ''No income statement data detected in first 40 pages.'',
                standard_label = ''INFO'', values_found = ''''\<rparr>]
         \<and> csv_of_text text
           = ''Raw Line,Standard Label,Values Found\<newline>No income statement data detected in first 40 pages.,INFO,\<newline>''
         \<and> (extract_text_from_pdf open_pdf page_text contents = Inr text
              \<longrightarrow> extract_financials open_pdf page_text contents
                    = Inr \<lparr>status_code = 200, media_type = ''text/csv'',
                           content_disposition = ''attachment; filename=financial_extraction.csv'',
                           body = ''Raw Line,Standard Label,Values Found\<newline>No income statement data detected in first 40 pages.,INFO,\<newline>''\<rparr>)"
proof -
  from assms have "filter qualifies (get_income_statement_lines text) = []"
    by (auto simp: filter_empty_conv qualifies_def)
  then have e: "data_rows text = []" by (simp add: data_rows_filter)
  then have f: "data_frame (data_rows text) = [info_row]" by (simp add: data_frame_def)
  then have g: "csv_of_text text = to_csv [info_row]" by (simp add: csv_of_text_def)
  from f have "data_frame (data_rows text)
           = [\<lparr>raw_line = ''No income statement data detected in first 40 pages.'',
                standard_label = ''INFO'', values_found = ''''\<rparr>]"
    by (simp add: info_row_def)
  moreover note g [unfolded csv_info]
  ultimately show ?thesis by (simp add: extract_financials_def)
qed

text \<open>
  A document of three pages, the second without text, whose only candidate line has no
  phrase of the rule table.
\<close>

theorem no_data_fallback_witness:
  "get_income_statement_lines
     ''Annual report\<newline>Revenue outlook 2024\<newline>Some unrelated text 42\<newline>''
     = [''Revenue outlook 2024'']
   \<and> normalize_label ''Revenue outlook 2024'' = ''UNKNOWN''
   \<and> csv_of_text ''Annual report\<newline>Revenue outlook 2024\<newline>Some unrelated text 42\<newline>''
       = ''Raw Line,Standard Label,Values Found\<newline>No income statement data detected in first 40 pages.,INFO,\<newline>''
   \<and> extract_financials
        (\<lambda>b. Inr [Some ''Annual report\<newline>Revenue outlook 2024'', None,
                     Some ''Some unrelated text 42''])
        example_page_text []
       = Inr \<lparr>status_code = 200, media_type = ''text/csv'',
              content_disposition = ''attachment; filename=financial_extraction.csv'',
              body = ''Raw Line,Standard Label,Values Found\<newline>No income statement data detected in first 40 pages.,INFO,\<newline>''\<rparr>"
proof -
  let ?text = "''Annual report\<newline>Revenue outlook 2024\<newline>Some unrelated text 42\<newline>''"
  let ?open = "\<lambda>b :: bytes. Inr [Some ''Annual report\<newline>Revenue outlook 2024'', None,
                                   Some ''Some unrelated text 42'']
                 :: string + string option list"
  have a: "get_income_statement_lines ?text = [''Revenue outlook 2024'']"
    by code_simp
  have b: "normalize_label ''Revenue outlook 2024'' = ''UNKNOWN''"
    by code_simp
  have h: "\<forall>l \<in> set (get_income_statement_lines ?text).
             normalize_label l = ''UNKNOWN'' \<or> extract_numbers l = []"
    unfolding a using b by simp
  have t: "extract_text_from_pdf ?open example_page_text [] = Inr ?text"
    by (simp add: extract_text_from_pdf_def example_page_text_def)
  from no_data_fallback [OF h, of ?open example_page_text "[]"] t a b
  show ?thesis by simp
qed

lemma data_rows_candidates:
  "data_rows text
     = map row_of (filter qualifies (filter is_candidate (map strip (split_nl text))))"
  by (simp add: data_rows_filter candidate_lines)

text \<open>
  Claim C7. For every text, the extraction result follows the lines of the text: the
  rows are the rows of the qualifying lines, which are the trimmed lines of the text
  filtered, so nothing is reordered and a line that occurs twice gives two rows; the data
  frame is this list of rows (the informational row when there is none), the CSV has one
  data line per qualifying line in that order, and this CSV is the body that the
  endpoint returns; and the values of each row are the values of the tokens of its line,
  joined in the order in which the tokens occur in the line from left to right.
\<close>

theorem row_order_preserved:
  "map raw_line (data_rows text) = qualifying_lines text
   \<and> data_frame (data_rows text)
     = (if qualifying_lines text = [] then [info_row] else map row_of (qualifying_lines text))
   \<and> csv_of_text text
     = csv_line [''Raw Line'', ''Standard Label'', ''Values Found'']
       @ (if qualifying_lines text = []
          then csv_line [''No income statement data detected in first 40 pages.'', ''INFO'', '''']
          else concat (map (\<lambda>l. csv_line [l, normalize_label l,
                                  join '', '' (map token_value (scan_tokens token_at l))])
                         (qualifying_lines text)))
   \<and> (\<forall>l \<in> set (qualifying_lines text). occur_in_order (scan_tokens token_at l) l)
   \<and> (extract_text_from_pdf open_pdf page_text contents = Inr text
       \<longrightarrow> map_sum id body (extract_financials open_pdf page_text contents)
             = Inr (csv_of_text text))"
proof -
  have r: "data_rows text = map row_of (qualifying_lines text)"
    by (simp add: data_rows_candidates qualifying_lines_def)
  have m: "map raw_line (map row_of ls) = ls" for ls
    by (induction ls) (simp_all add: row_of_def)
  have v: "extract_numbers l = map token_value (scan_tokens token_at l)" for l
    by (simp add: extract_numbers_scan clean_number_value)
  have c: "concat (map (\<lambda>r. csv_line [raw_line r, standard_label r, values_found r])
                     (map row_of ls))
             = concat (map (\<lambda>l. csv_line [l, normalize_label l,
                                     join '', '' (map token_value (scan_tokens token_at l))])
                         ls)" for ls
    by (induction ls) (simp_all add: row_of_def v)
  have 1: "map raw_line (data_rows text) = qualifying_lines text"
    unfolding r by (rule m)
  have 2: "data_frame (data_rows text)
     = (if qualifying_lines text = [] then [info_row] else map row_of (qualifying_lines text))"
    by (simp add: r data_frame_def)
  have 3: "csv_of_text text
     = csv_line [''Raw Line'', ''Standard Label'', ''Values Found'']
       @ (if qualifying_lines text = []
          then csv_line [''No income statement data detected in first 40 pages.'', ''INFO'', '''']
          else concat (map (\<lambda>l. csv_line [l, normalize_label l,
                                  join '', '' (map token_value (scan_tokens token_at l))])
                         (qualifying_lines text)))"
  proof (cases "qualifying_lines text = []")
    case True
    then show ?thesis
      unfolding csv_of_text_def 2 by (simp add: to_csv_def info_row_def)
  next
    case False
    with 2 have "data_frame (data_rows text) = map row_of (qualifying_lines text)"
      by simp
    then have "csv_of_text text
                 = csv_line [''Raw Line'', ''Standard Label'', ''Values Found'']
                   @ concat (map (\<lambda>r. csv_line [raw_line r, standard_label r, values_found r])
                               (map row_of (qualifying_lines text)))"
      by (simp only: csv_of_text_def to_csv_def)
    from this [unfolded c] False show ?thesis by simp
  qed
  have 4: "\<forall>l \<in> set (qualifying_lines text). occur_in_order (scan_tokens token_at l) l"
    by (simp add: scan_tokens_in_order)
  have 5: "extract_text_from_pdf open_pdf page_text contents = Inr text
       \<longrightarrow> map_sum id body (extract_financials open_pdf page_text contents)
             = Inr (csv_of_text text)"
    by (simp add: extract_financials_def)
  from 1 2 3 4 5 show ?thesis by blast
qed

text \<open>
  A document of two pages whose first line comes again as its third line, with white
  space in front: the CSV has the three data lines in the order of the text.
\<close>

theorem row_order_preserved_witness:
  "qualifying_lines
     ''Total net sales 1,200 900\<newline>Gross margin 300\<newline>  Total net sales 1,200 900\<newline>''
     = [''Total net sales 1,200 900'', ''Gross margin 300'', ''Total net sales 1,200 900'']
   \<and> map values_found
       (data_frame (data_rows
          ''Total net sales 1,200 900\<newline>Gross margin 300\<newline>  Total net sales 1,200 900\<newline>''))
     = [''1200, 900'', ''300'', ''1200, 900'']
   \<and> occur_in_order [''1,200'', ''900''] ''Total net sales 1,200 900''
   \<and> map_sum id body
       (extract_financials
          (\<lambda>b. Inr [Some ''Total net sales 1,200 900\<newline>Gross margin 300'',
                       Some ''  Total net sales 1,200 900''])
          example_page_text [])
     = Inr (''Raw Line,Standard Label,Values Found\<newline>''
            @ [CHR 0x22] @ ''Total net sales 1,200 900'' @ [CHR 0x22] @ '',Revenue,''
            @ [CHR 0x22] @ ''1200, 900'' @ [CHR 0x22] @ ''\<newline>''
            @ ''Gross margin 300,Gross Profit,300\<newline>''
            @ [CHR 0x22] @ ''Total net sales 1,200 900'' @ [CHR 0x22] @ '',Revenue,''
            @ [CHR 0x22] @ ''1200, 900'' @ [CHR 0x22] @ ''\<newline>'')"
proof -
  let ?text = "''Total net sales 1,200 900\<newline>Gross margin 300\<newline>  Total net sales 1,200 900\<newline>''"
  let ?open = "\<lambda>b :: bytes. Inr [Some ''Total net sales 1,200 900\<newline>Gross margin 300'',
                                   Some ''  Total net sales 1,200 900'']
                 :: string + string option list"
  let ?csv = "''Raw Line,Standard Label,Values Found\<newline>''
            @ [CHR 0x22] @ ''Total net sales 1,200 900'' @ [CHR 0x22] @ '',Revenue,''
            @ [CHR 0x22] @ ''1200, 900'' @ [CHR 0x22] @ ''\<newline>''
            @ ''Gross margin 300,Gross Profit,300\<newline>''
            @ [CHR 0x22] @ ''Total net sales 1,200 900'' @ [CHR 0x22] @ '',Revenue,''
            @ [CHR 0x22] @ ''1200, 900'' @ [CHR 0x22] @ ''\<newline>''"
  have q: "qualifying_lines ?text
             = [''Total net sales 1,200 900'', ''Gross margin 300'', ''Total net sales 1,200 900'']"
    by code_simp
  have b: "map values_found
             (map row_of [''Total net sales 1,200 900'', ''Gross margin 300'',
                          ''Total net sales 1,200 900''])
             = [''1200, 900'', ''300'', ''1200, 900'']"
    by code_simp
  have e: "csv_line [''Raw Line'', ''Standard Label'', ''Values Found'']
           @ concat (map (\<lambda>l. csv_line [l, normalize_label l,
                                   join '', '' (map token_value (scan_tokens token_at l))])
                       [''Total net sales 1,200 900'', ''Gross margin 300'',
                        ''Total net sales 1,200 900''])
           = ?csv"
    by code_simp
  have c: "scan_tokens token_at ''Total net sales 1,200 900'' = [''1,200'', ''900'']"
    by code_simp
  have t: "extract_text_from_pdf ?open example_page_text [] = Inr ?text"
    by (simp add: extract_text_from_pdf_def example_page_text_def)
  from row_order_preserved [of ?text ?open example_page_text "[]"] t
  have d: "data_frame (data_rows ?text)
             = (if qualifying_lines ?text = [] then [info_row]
                else map row_of (qualifying_lines ?text))"
    and f: "csv_of_text ?text
     = csv_line [''Raw Line'', ''Standard Label'', ''Values Found'']
       @ (if qualifying_lines ?text = []
          then csv_line [''No income statement data detected in first 40 pages.'', ''INFO'', '''']
          else concat (map (\<lambda>l. csv_line [l, normalize_label l,
                                  join '', '' (map token_value (scan_tokens token_at l))])
                         (qualifying_lines ?text)))"
    and o: "\<forall>l \<in> set (qualifying_lines ?text). occur_in_order (scan_tokens token_at l) l"
    and g: "map_sum id body (extract_financials ?open example_page_text [])
              = Inr (csv_of_text ?text)"
    by blast+
  from d have d': "map values_found (data_frame (data_rows ?text)) = [''1200, 900'', ''300'', ''1200, 900'']"
    unfolding q using b by simp
  from f have f': "csv_of_text ?text = ?csv"
    unfolding q using e by simp
  from o have "occur_in_order (scan_tokens token_at ''Total net sales 1,200 900'')
                 ''Total net sales 1,200 900''"
    unfolding q by simp
  then have o': "occur_in_order [''1,200'', ''900''] ''Total net sales 1,200 900''"
    unfolding c .
  from g have g': "map_sum id body (extract_financials ?open example_page_text []) = Inr ?csv"
    unfolding f' .
  from q d' o' g' show ?thesis by blast
qed

subsection \<open>Page Text Extractor and endpoint\<close>

lemma pages_loop_cong:
  "\<forall>p \<in> set pages. f p = g p \<Longrightarrow> pages_loop f pages text = pages_loop g pages text"
  by (induction pages arbitrary: "text") (auto split: sum.splits)

lemma pages_loop_concat:
  "\<forall>p \<in> set pages. page_text p = Inr (txt p) \<Longrightarrow>
   pages_loop page_text pages text
     = Inr (text @ concat (map (\<lambda>p. page_part (txt p)) pages))"
proof (induction pages arbitrary: "text")
  case Nil
  then show ?case by simp
next
  case (Cons p ps)
  then show ?case
    by (cases "txt p") (simp_all add: page_part_def)
qed

lemma pages_loop_fail:
  "pages_loop page_text pages text = Inl e \<Longrightarrow> \<exists>p \<in> set pages. page_text p = Inl e"
  by (induction pages arbitrary: "text") (auto split: sum.splits if_splits)

lemma pages_loop_ok:
  "\<forall>p \<in> set pages. \<exists>t. page_text p = Inr t \<Longrightarrow> \<exists>text'. pages_loop page_text pages text = Inr text'"
  by (induction pages arbitrary: "text") (auto split: sum.splits)

text \<open>
  Claim C8. For every document, when the library opens it and gives the text of each of
  its first 40 pages, the extracted text is the concatenation, in page order, of what
  these pages add: the text of the page followed by a line feed, and nothing for a page
  that yields no text, be it no text at all or the empty text. The result depends on the
  first 40 pages only: two documents with the same first 40 pages, whatever comes behind
  them and whatever its text would be, give the same extracted text and the same outcome
  of the endpoint.
\<close>

theorem first_forty_pages:
  "(open_pdf contents = Inr pages \<and> (\<forall>p \<in> set (take 40 pages). page_text p = Inr (txt p))
      \<longrightarrow> extract_text_from_pdf open_pdf page_text contents
            = Inr (concat (map (\<lambda>p. page_part (txt p)) (take 40 pages))))
   \<and> (open_pdf contents = Inr pages \<and> open_pdf' contents' = Inr pages'
       \<and> take 40 pages = take 40 pages'
       \<and> (\<forall>p \<in> set (take 40 pages). page_text p = page_text' p)
      \<longrightarrow> extract_text_from_pdf open_pdf page_text contents
            = extract_text_from_pdf open_pdf' page_text' contents'
          \<and> extract_financials open_pdf page_text contents
            = extract_financials open_pdf' page_text' contents')"
proof (intro conjI impI)
  assume "open_pdf contents = Inr pages \<and> (\<forall>p \<in> set (take 40 pages). page_text p = Inr (txt p))"
  then have o: "open_pdf contents = Inr pages"
    and "\<forall>p \<in> set (take 40 pages). page_text p = Inr (txt p)" by blast+
  from pages_loop_concat [OF this(2), of "[]"] o show "extract_text_from_pdf open_pdf page_text contents
            = Inr (concat (map (\<lambda>p. page_part (txt p)) (take 40 pages)))"
    by (simp add: extract_text_from_pdf_def)
next
  assume a: "open_pdf contents = Inr pages \<and> open_pdf' contents' = Inr pages'
       \<and> take 40 pages = take 40 pages'
       \<and> (\<forall>p \<in> set (take 40 pages). page_text p = page_text' p)"
  then have "pages_loop page_text (take 40 pages) [] = pages_loop page_text' (take 40 pages) []"
    by (intro pages_loop_cong) simp
  with a show e: "extract_text_from_pdf open_pdf page_text contents
            = extract_text_from_pdf open_pdf' page_text' contents'"
    by (simp add: extract_text_from_pdf_def)
  then show "extract_financials open_pdf page_text contents
            = extract_financials open_pdf' page_text' contents'"
    by (simp add: extract_financials_def)
qed

lemma example_take:
  "take 40 example_pages
     = Some ''Net sales 1,200 900'' # Some [] # None
       # replicate 37 (Some ''Net sales 1,200 900'')"
  by (simp add: example_pages_def)

text \<open>
  The example document of 50 pages: its second page has the empty text and its third
  page has none, so the extracted text has the 38 lines of the other pages among the
  first 40, and the outcome is that of the document with these 40 pages only.
\<close>

theorem first_forty_pages_witness:
  "example_open [0x25, 0x50, 0x44, 0x46] = Inr example_pages
   \<and> length example_pages = 50
   \<and> take 3 example_pages = [Some ''Net sales 1,200 900'', Some [], None]
   \<and> extract_text_from_pdf example_open example_page_text [0x25, 0x50, 0x44, 0x46]
       = Inr (''Net sales 1,200 900\<newline>'' @ concat (replicate 37 ''Net sales 1,200 900\<newline>''))
   \<and> extract_financials example_open example_page_text [0x25, 0x50, 0x44, 0x46]
       = extract_financials
           (\<lambda>b. Inr (Some ''Net sales 1,200 900'' # Some [] # None
                       # replicate 37 (Some ''Net sales 1,200 900'')))
           example_page_text []"
proof -
  let ?forty = "Some ''Net sales 1,200 900'' # Some [] # None
                  # replicate 37 (Some ''Net sales 1,200 900'')"
  let ?open = "\<lambda>b :: bytes. Inr ?forty :: string + string option list"
  have o: "example_open [0x25, 0x50, 0x44, 0x46] = Inr example_pages"
    by (simp add: example_open_def)
  have l: "length example_pages = 50"
    by (simp add: example_pages_def)
  have k: "take 3 example_pages = [Some ''Net sales 1,200 900'', Some [], None]"
    by (simp add: example_pages_def)
  have h: "\<forall>p \<in> set (take 40 example_pages). example_page_text p = Inr p"
    by (simp add: example_page_text_def)
  have t: "take 40 example_pages = take 40 ?forty"
    by (simp add: example_take)
  from first_forty_pages [of example_open "[0x25, 0x50, 0x44, 0x46]" example_pages
         example_page_text "\<lambda>p. p" ?open "[]" ?forty example_page_text] o h t
  have "extract_text_from_pdf example_open example_page_text [0x25, 0x50, 0x44, 0x46]
          = Inr (concat (map page_part (take 40 example_pages)))"
    and "extract_financials example_open example_page_text [0x25, 0x50, 0x44, 0x46]
          = extract_financials ?open example_page_text []"
    by blast+
  with o l k show ?thesis by (simp add: example_take page_part_def)
qed

lemma not_client_error: "\<not> client_error (extract_financials open_pdf page_text contents)"
  by (simp add: client_error_def extract_financials_def split: sum.splits)

text \<open>
  Claim C4, as amended. For every byte stream that the library rejects, the endpoint
  fails with the exception of the library, unchanged; a failure of the endpoint is always
  an exception of the library, raised when the document is opened or when the text of one
  of its first 40 pages is extracted; when both succeed the endpoint returns a CSV
  response of status 200; and no outcome of the endpoint is a failure answered with a
  status from 400 to 499.
\<close>

theorem library_failure_propagates:
  "(open_pdf contents = Inl e \<longrightarrow> extract_financials open_pdf page_text contents = Inl e)
   \<and> (extract_financials open_pdf page_text contents = Inl e
       \<longrightarrow> open_pdf contents = Inl e
          \<or> (\<exists>pages. open_pdf contents = Inr pages
                \<and> (\<exists>p \<in> set (take 40 pages). page_text p = Inl e)))
   \<and> (open_pdf contents = Inr pages \<and> (\<forall>p \<in> set (take 40 pages). \<exists>t. page_text p = Inr t)
       \<longrightarrow> (\<exists>text. extract_financials open_pdf page_text contents
                  = Inr \<lparr>status_code = 200, media_type = ''text/csv'',
                         content_disposition = ''attachment; filename=financial_extraction.csv'',
                         body = csv_of_text text\<rparr>))
   \<and> \<not> client_error (extract_financials open_pdf page_text contents)"
proof (intro conjI impI)
  assume "open_pdf contents = Inl e"
  then show "extract_financials open_pdf page_text contents = Inl e"
    by (simp add: extract_financials_def extract_text_from_pdf_def)
next
  assume "extract_financials open_pdf page_text contents = Inl e"
  then have f: "extract_text_from_pdf open_pdf page_text contents = Inl e"
    by (simp add: extract_financials_def split: sum.splits)
  show "open_pdf contents = Inl e
          \<or> (\<exists>pages. open_pdf contents = Inr pages
                \<and> (\<exists>p \<in> set (take 40 pages). page_text p = Inl e))"
  proof (cases "open_pdf contents")
    case (Inl e')
    with f show ?thesis by (simp add: extract_text_from_pdf_def)
  next
    case (Inr pages)
    with f have "pages_loop page_text (take 40 pages) [] = Inl e"
      by (simp add: extract_text_from_pdf_def)
    then have "\<exists>p \<in> set (take 40 pages). page_text p = Inl e"
      by (rule pages_loop_fail)
    with Inr show ?thesis by simp
  qed
next
  assume "open_pdf contents = Inr pages \<and> (\<forall>p \<in> set (take 40 pages). \<exists>t. page_text p = Inr t)"
  then have o: "open_pdf contents = Inr pages"
    and "\<forall>p \<in> set (take 40 pages). \<exists>t. page_text p = Inr t" by blast+
  from pages_loop_ok [OF this(2), of "[]"] obtain t
    where "pages_loop page_text (take 40 pages) [] = Inr t" ..
  with o have "extract_financials open_pdf page_text contents
                 = Inr \<lparr>status_code = 200, media_type = ''text/csv'',
                         content_disposition = ''attachment; filename=financial_extraction.csv'',
                         body = csv_of_text t\<rparr>"
    by (simp add: extract_financials_def extract_text_from_pdf_def)
  then show "\<exists>text. extract_financials open_pdf page_text contents
                  = Inr \<lparr>status_code = 200, media_type = ''text/csv'',
                         content_disposition = ''attachment; filename=financial_extraction.csv'',
                         body = csv_of_text text\<rparr>" ..
next
  show "\<not> client_error (extract_financials open_pdf page_text contents)"
    by (rule not_client_error)
qed

text \<open>The example library on a byte stream that it rejects and on one that it opens.\<close>

theorem library_failure_propagates_witness:
  "example_open [0x00, 0x01] = Inl ''PDFSyntaxError''
   \<and> extract_financials example_open example_page_text [0x00, 0x01] = Inl ''PDFSyntaxError''
   \<and> example_open [0x25, 0x50, 0x44, 0x46] = Inr example_pages
   \<and> (\<exists>text. extract_financials example_open example_page_text [0x25, 0x50, 0x44, 0x46]
                = Inr \<lparr>status_code = 200, media_type = ''text/csv'',
                       content_disposition = ''attachment; filename=financial_extraction.csv'',
                       body = csv_of_text text\<rparr>)"
proof -
  have a: "example_open [0x00, 0x01] = Inl ''PDFSyntaxError''"
    by (simp add: example_open_def)
  have b: "example_open [0x25, 0x50, 0x44, 0x46] = Inr example_pages"
    by (simp add: example_open_def)
  have c: "\<forall>p \<in> set (take 40 example_pages). \<exists>t. example_page_text p = Inr t"
    by (simp add: example_page_text_def)
  from library_failure_propagates [of example_open "[0x00, 0x01]" "''PDFSyntaxError''"
         example_page_text example_pages] a
  have d: "extract_financials example_open example_page_text [0x00, 0x01] = Inl ''PDFSyntaxError''"
    by blast
  from library_failure_propagates [of example_open "[0x25, 0x50, 0x44, 0x46]" _
         example_page_text example_pages] b c
  have "\<exists>text. extract_financials example_open example_page_text [0x25, 0x50, 0x44, 0x46]
                = Inr \<lparr>status_code = 200, media_type = ''text/csv'',
                       content_disposition = ''attachment; filename=financial_extraction.csv'',
                       body = csv_of_text text\<rparr>"
    by blast
  with a b c d show ?thesis by blast
qed

text \<open>
  Claim C4, as stated, has the failure surfaced to the caller as a failure of the 4xx
  kind. On a byte stream that the library rejects, the exception of the library leaves
  the endpoint as it is: the outcome is not an answer with a status from 400 to 499.
\<close>

theorem malformed_input_counterexample:
  "example_open [0x00, 0x01] = Inl ''PDFSyntaxError''
   \<and> extract_financials example_open example_page_text [0x00, 0x01] = Inl ''PDFSyntaxError''
   \<and> \<not> client_error (extract_financials example_open example_page_text [0x00, 0x01])"
  by (simp add: extract_financials_def extract_text_from_pdf_def example_open_def client_error_def)

end
